theory Spec2Isabelle
  imports
    Complex_Main
    "HOL-Library.Char_ord"
    "HOL-Library.List_Lexorder"
    "HOL-Library.Product_Lexorder"
begin

section \<open>The movie dashboard's aggregation pipelines\<close>

text \<open>
  The dashboard (\<^verbatim>\<open>app.py\<close>, function \<^verbatim>\<open>main\<close>) loads one table of ratings and derives
  four tables from it, one per tab, with pandas: group, aggregate, filter, sort.
  Each derivation is embedded here as a function from the table and the widget values to
  the table handed to the chart.

  Conventions of the embedding:
  \<^item> a row of the table is a record with the five columns of the CSV file; every cell
    holds a value (the data model of the specification has no missing cells);
  \<^item> the table carries the list of its column labels, so that a table can lack a
    column; pandas raises \<^verbatim>\<open>KeyError\<close> when a missing label is used, which is the
    left summand of the result type;
  \<^item> ratings, means and percentages are rationals: the arithmetic of pandas on
    64-bit floats is taken as exact;
  \<^item> a missing value of a derived column (\<^verbatim>\<open>NaN\<close>) is \<open>None\<close>.
\<close>

subsection \<open>Tables\<close>

record rating_row =
  movie_id :: int
  title :: string
  genres :: string
  rating :: rat
  year :: int

record dataframe =
  columns :: "string list"
  rows :: "rating_row list"

datatype py_error = KeyError string

subsection \<open>Grouping\<close>

text \<open>
  \<^verbatim>\<open>df.groupby(key)\<close> partitions the rows by the value of the key and, as \<^verbatim>\<open>sort=True\<close>
  is the default, presents the groups in increasing order of the key. Within a group the
  rows keep the order of the table.
\<close>

definition groupby :: "('r \<Rightarrow> 'k::linorder) \<Rightarrow> 'r list \<Rightarrow> ('k \<times> 'r list) list" where
  "groupby key rs = map (\<lambda>k. (k, filter (\<lambda>r. key r = k) rs)) (sort (remdups (map key rs)))"

text \<open>The aggregation \<^verbatim>\<open>"mean"\<close> of a group of ratings.\<close>

definition mean :: "rat list \<Rightarrow> rat" where
  "mean xs = sum_list xs / of_nat (length xs)"

subsection \<open>Q1: genre distribution\<close>

text \<open>
  \<^verbatim>\<open>
  genre_counts = df.groupby("genres").size().reset_index(name="count")
  genre_counts["pct"] = 100 * genre_counts["count"] / genre_counts["count"].sum()
  major = genre_counts[genre_counts["pct"] >= min_pct]
  minor = genre_counts[genre_counts["pct"] < min_pct]
  if not minor.empty:
      other_row = pd.DataFrame({"genres": ["Other"],
                                "count": [minor["count"].sum()],
                                "pct": [minor["pct"].sum()]})
      display_df = pd.concat([major, other_row], ignore_index=True)
  else:
      display_df = major
  \<close>
\<close>

record genre_count =
  gc_genres :: string
  gc_count :: nat
  gc_pct :: rat

definition genre_counts :: "rating_row list \<Rightarrow> genre_count list" where
  "genre_counts rs =
     (let sizes = map (\<lambda>(g, grp). (g, length grp)) (groupby genres rs);
          total = sum_list (map snd sizes)
      in map (\<lambda>(g, c). \<lparr>gc_genres = g, gc_count = c,
                          gc_pct = 100 * of_nat c / of_nat total\<rparr>) sizes)"

definition other_row :: "genre_count list \<Rightarrow> genre_count" where
  "other_row minor =
     \<lparr>gc_genres = ''Other'',
      gc_count = sum_list (map gc_count minor),
      gc_pct = sum_list (map gc_pct minor)\<rparr>"

definition genre_distribution :: "dataframe \<Rightarrow> rat \<Rightarrow> py_error + genre_count list" where
  "genre_distribution df min_pct =
     (if ''genres'' \<notin> set (columns df) then Inl (KeyError ''genres'')
      else
        let gcs = genre_counts (rows df);
            major = filter (\<lambda>g. gc_pct g \<ge> min_pct) gcs;
            minor = filter (\<lambda>g. gc_pct g < min_pct) gcs
        in if minor \<noteq> [] then Inr (major @ [other_row minor]) else Inr major)"

subsection \<open>Q2: average rating by genre\<close>

text \<open>
  \<^verbatim>\<open>
  genre_stats = df.groupby("genres").agg(
      avg_rating=("rating", "mean"), num_ratings=("rating", "size")).reset_index()
  filtered = genre_stats[genre_stats["num_ratings"] >= min_ratings]
  ascending = sort_order == "Low -> High"
  filtered = filtered.sort_values("avg_rating", ascending=ascending)
  \<close>
  The radio button offers the two labels of \<open>sort_order\<close>.
\<close>

datatype sort_order = High_to_Low | Low_to_High

record genre_stat =
  gs_genres :: string
  gs_avg_rating :: rat
  gs_num_ratings :: nat

definition genre_stats :: "rating_row list \<Rightarrow> genre_stat list" where
  "genre_stats rs =
     map (\<lambda>(g, grp). \<lparr>gs_genres = g, gs_avg_rating = mean (map rating grp),
                        gs_num_ratings = length grp\<rparr>)
         (groupby genres rs)"

text \<open>
  \<^verbatim>\<open>sort_values\<close> on one column orders the rows by an argsort of the column; for a
  descending order pandas reverses the column, sorts it ascending and reverses the result.
  The argsort is numpy's default one, which leaves the order of equal keys to the
  algorithm; an insertion sort stands for it here.
\<close>

definition sort_values :: "('r \<Rightarrow> 'k::linorder) \<Rightarrow> bool \<Rightarrow> 'r list \<Rightarrow> 'r list" where
  "sort_values key ascending xs =
     (if ascending then sort_key key xs else rev (sort_key key (rev xs)))"

definition genre_rating ::
  "dataframe \<Rightarrow> int \<Rightarrow> sort_order \<Rightarrow> py_error + genre_stat list" where
  "genre_rating df min_ratings order =
     (if ''genres'' \<notin> set (columns df) then Inl (KeyError ''genres'')
      else if ''rating'' \<notin> set (columns df) then Inl (KeyError ''rating'')
      else
        let filtered = filter (\<lambda>s. int (gs_num_ratings s) \<ge> min_ratings)
                         (genre_stats (rows df));
            ascending = (order = Low_to_High)
        in Inr (sort_values gs_avg_rating ascending filtered))"

subsection \<open>Q3: rating trend by year\<close>

text \<open>
  \<^verbatim>\<open>
  year_stats = df.groupby("year").agg(
      avg_rating=("rating", "mean"), n_ratings=("rating", "size")).reset_index()
  mask = (year_stats["year"] >= year_range[0]) & (year_stats["year"] <= year_range[1])
  year_filtered = year_stats[mask & (year_stats["n_ratings"] >= min_count_year)]
  if smooth_window > 1 and not year_filtered.empty:
      year_filtered["avg_smoothed"] = \
          year_filtered["avg_rating"].rolling(window=smooth_window, center=True).mean()
  else:
      year_filtered["avg_smoothed"] = year_filtered["avg_rating"]
  \<close>
  The three parameters come from widgets. The bounds of the year slider are read from
  the column \<^verbatim>\<open>year\<close> beforehand, which raises the same \<^verbatim>\<open>KeyError\<close> as the grouping
  when the table has no such column.
\<close>

record year_stat =
  ys_year :: int
  ys_avg_rating :: rat
  ys_n_ratings :: nat

record year_point =
  yp_year :: int
  yp_avg_rating :: rat
  yp_n_ratings :: nat
  yp_avg_smoothed :: "rat option"

definition year_stats :: "rating_row list \<Rightarrow> year_stat list" where
  "year_stats rs =
     map (\<lambda>(y, grp). \<lparr>ys_year = y, ys_avg_rating = mean (map rating grp),
                        ys_n_ratings = length grp\<rparr>)
         (groupby year rs)"

definition with_smoothed :: "year_stat \<Rightarrow> rat option \<Rightarrow> year_point" where
  "with_smoothed s v =
     \<lparr>yp_year = ys_year s, yp_avg_rating = ys_avg_rating s,
      yp_n_ratings = ys_n_ratings s, yp_avg_smoothed = v\<rparr>"

text \<open>
  \<^verbatim>\<open>rolling(window, center=True).mean()\<close>: pandas gives position \<open>i\<close> the window that
  ends (exclusively) at \<open>i + 1 + offset\<close> with \<open>offset = (window - 1) // 2\<close> and starts
  \<open>window\<close> positions before; both bounds are clipped to the series, and the value is
  missing when the clipped window holds fewer than \<open>window\<close> observations
  (\<^verbatim>\<open>min_periods\<close> defaults to the size of the window).
\<close>

definition rolling_mean_center :: "int \<Rightarrow> rat list \<Rightarrow> rat option list" where
  "rolling_mean_center window xs =
     (let n = int (length xs);
          offset = (window - 1) div 2
      in map (\<lambda>i.
                let end_raw = int i + 1 + offset;
                    start_raw = end_raw - window;
                    e = max 0 (min n end_raw);
                    s = max 0 (min n start_raw)
                in if e - s < window then None
                   else Some (mean (take (nat (e - s)) (drop (nat s) xs))))
             [0..<length xs])"

definition year_trend ::
  "dataframe \<Rightarrow> int \<times> int \<Rightarrow> int \<Rightarrow> int \<Rightarrow> py_error + year_point list" where
  "year_trend df year_range min_count_year smooth_window =
     (if ''year'' \<notin> set (columns df) then Inl (KeyError ''year'')
      else if ''rating'' \<notin> set (columns df) then Inl (KeyError ''rating'')
      else
        let year_filtered =
              filter (\<lambda>s. ys_year s \<ge> fst year_range \<and> ys_year s \<le> snd year_range
                           \<and> int (ys_n_ratings s) \<ge> min_count_year)
                     (year_stats (rows df))
        in if smooth_window > 1 \<and> year_filtered \<noteq> []
           then Inr (map2 with_smoothed year_filtered
                       (rolling_mean_center smooth_window
                          (map ys_avg_rating year_filtered)))
           else Inr (map (\<lambda>s. with_smoothed s (Some (ys_avg_rating s))) year_filtered))"

subsection \<open>Q4: top rated movies\<close>

text \<open>
  \<^verbatim>\<open>
  movie_stats = df.groupby(["movie_id", "title"]).agg(
      avg_rating=("rating", "mean"), n_ratings=("rating", "size")).reset_index()
  filtered_movies = movie_stats[movie_stats["n_ratings"] >= min_movie_ratings]
  top_movies = filtered_movies.sort_values(
      ["avg_rating", "n_ratings"], ascending=[False, False]).head(top_n)
  \<close>
  With two sort columns pandas sorts lexicographically on the pair; a descending column
  enters with its order reversed, which negation does for numbers.
\<close>

record movie_stat =
  ms_movie_id :: int
  ms_title :: string
  ms_avg_rating :: rat
  ms_n_ratings :: nat

definition movie_stats :: "rating_row list \<Rightarrow> movie_stat list" where
  "movie_stats rs =
     map (\<lambda>((i, t), grp). \<lparr>ms_movie_id = i, ms_title = t,
                             ms_avg_rating = mean (map rating grp),
                             ms_n_ratings = length grp\<rparr>)
         (groupby (\<lambda>r. (movie_id r, title r)) rs)"

definition sort_values_desc2 :: "movie_stat list \<Rightarrow> movie_stat list" where
  "sort_values_desc2 xs =
     sort_key (\<lambda>m. (- ms_avg_rating m, - int (ms_n_ratings m))) xs"

text \<open>\<^verbatim>\<open>head(n)\<close> is the slice \<^verbatim>\<open>[:n]\<close>: a negative \<open>n\<close> drops the last \<open>-n\<close> rows.\<close>

definition head :: "int \<Rightarrow> 'a list \<Rightarrow> 'a list" where
  "head n xs = (if n \<ge> 0 then take (nat n) xs else take (length xs - nat (- n)) xs)"

definition top_movies :: "dataframe \<Rightarrow> int \<Rightarrow> int \<Rightarrow> py_error + movie_stat list" where
  "top_movies df min_movie_ratings top_n =
     (if ''movie_id'' \<notin> set (columns df) then Inl (KeyError ''movie_id'')
      else if ''title'' \<notin> set (columns df) then Inl (KeyError ''title'')
      else if ''rating'' \<notin> set (columns df) then Inl (KeyError ''rating'')
      else
        let filtered_movies =
              filter (\<lambda>m. int (ms_n_ratings m) \<ge> min_movie_ratings)
                     (movie_stats (rows df))
        in Inr (head top_n (sort_values_desc2 filtered_movies)))"

subsection \<open>Example tables\<close>

text \<open>
  The table of the specification's examples: ten ratings of a comedy and two of a drama.
  \<open>eleven_genres\<close> has one rating in each of eleven genres, so that every genre has a
  share below ten percent; \<open>five_years\<close> has one rating in each of five years.
\<close>

definition all_columns :: "string list" where
  "all_columns = [''movie_id'', ''title'', ''genres'', ''rating'', ''year'']"

definition example_table :: dataframe where
  "example_table =
     \<lparr>columns = all_columns,
      rows = replicate 10 \<lparr>movie_id = 1, title = ''A'', genres = ''Comedy'',
                            rating = 4, year = 2000\<rparr>
           @ replicate 2 \<lparr>movie_id = 2, title = ''B'', genres = ''Drama'',
                            rating = 2, year = 2000\<rparr>\<rparr>"


definition five_years :: dataframe where
  "five_years =
     \<lparr>columns = all_columns,
      rows = map (\<lambda>(y, r). \<lparr>movie_id = y, title = ''T'', genres = ''Drama'',
                             rating = r, year = y\<rparr>)
               [(2000, 1), (2001, 2), (2002, 3), (2003, 4), (2004, 5)]\<rparr>"

text \<open>
  \<open>mixed_ratings\<close> has three movies in two genres whose ratings differ within a group:
  the drama is rated 5, 1 and 1, the two comedies are rated 4 throughout.
\<close>

definition mixed_ratings :: dataframe where
  "mixed_ratings =
     \<lparr>columns = all_columns,
      rows = [\<lparr>movie_id = 2, title = ''B'', genres = ''Drama'', rating = 5, year = 2001\<rparr>,
              \<lparr>movie_id = 1, title = ''A'', genres = ''Comedy'', rating = 4, year = 2000\<rparr>,
              \<lparr>movie_id = 2, title = ''B'', genres = ''Drama'', rating = 1, year = 2001\<rparr>,
              \<lparr>movie_id = 1, title = ''A'', genres = ''Comedy'', rating = 4, year = 2000\<rparr>,
              \<lparr>movie_id = 2, title = ''B'', genres = ''Drama'', rating = 1, year = 2001\<rparr>,
              \<lparr>movie_id = 3, title = ''C'', genres = ''Comedy'', rating = 4, year = 2002\<rparr>,
              \<lparr>movie_id = 1, title = ''A'', genres = ''Comedy'', rating = 4, year = 2000\<rparr>]\<rparr>"

section \<open>Properties\<close>

subsection \<open>Grouping\<close>

lemma groupby_member:
  "(k, grp) \<in> set (groupby key rs) \<Longrightarrow> grp = filter (\<lambda>r. key r = k) rs \<and> k \<in> key ` set rs"
  by (auto simp: groupby_def)


lemma count_list_map_filter:
  "count_list (map key rs) k = length (filter (\<lambda>r. key r = k) rs)"
  by (induction rs) auto

text \<open>The groups partition the rows: their sizes add up to the number of rows.\<close>

lemma groupby_sizes:
  "sum_list (map (\<lambda>(k, grp). length grp) (groupby key rs)) = length rs"
proof -
  let ?ks = "sort (remdups (map key rs))"
  let ?size = "\<lambda>k. length (filter (\<lambda>r. key r = k) rs)"
  have "sum_list (map (\<lambda>(k, grp). length grp) (groupby key rs)) = sum_list (map ?size ?ks)"
    by (simp add: groupby_def comp_def)
  also have "\<dots> = sum ?size (set ?ks)"
    by (rule sum_list_distinct_conv_sum_set) simp
  also have "\<dots> = sum (count_list (map key rs)) (set ?ks)"
    by (rule sum.cong) (simp_all add: count_list_map_filter)
  also have "\<dots> = length (map key rs)"
    by (rule sum_count_set) simp_all
  finally show ?thesis by simp
qed

lemma sum_list_split_nat:
  fixes f :: "'a \<Rightarrow> nat"
  shows "sum_list (map f (filter P xs)) + sum_list (map f (filter (\<lambda>x. \<not> P x) xs))
         = sum_list (map f xs)"
  by (induction xs) auto


subsection \<open>Genre distribution\<close>

lemma genre_counts_count_sum:
  "sum_list (map gc_count (genre_counts rs)) = length rs"
proof -
  have "map gc_count (genre_counts rs) = map (\<lambda>(k, grp). length grp) (groupby genres rs)"
    by (simp add: genre_counts_def Let_def comp_def case_prod_unfold)
  then show ?thesis by (simp add: groupby_sizes)
qed






lemma genre_distribution_cases:
  assumes "genre_distribution df min_pct = Inr out"
  shows "out = filter (\<lambda>g. gc_pct g \<ge> min_pct) (genre_counts (rows df))
               @ (if filter (\<lambda>g. gc_pct g < min_pct) (genre_counts (rows df)) = [] then []
                  else [other_row (filter (\<lambda>g. gc_pct g < min_pct) (genre_counts (rows df)))])"
  using assms by (auto simp: genre_distribution_def Let_def split: if_splits)


lemma genre_distribution_count_sum:
  assumes "genre_distribution df min_pct = Inr out"
  shows "sum_list (map gc_count out) = length (rows df)"
proof -
  let ?gcs = "genre_counts (rows df)"
  have "sum_list (map gc_count out)
        = sum_list (map gc_count (filter (\<lambda>g. gc_pct g \<ge> min_pct) ?gcs))
          + sum_list (map gc_count (filter (\<lambda>g. \<not> gc_pct g \<ge> min_pct) ?gcs))"
    unfolding genre_distribution_cases [OF assms]
    by (simp add: other_row_def not_le)
  also have "\<dots> = sum_list (map gc_count ?gcs)"
    by (rule sum_list_split_nat)
  finally show ?thesis by (simp add: genre_counts_count_sum)
qed





text \<open>
  Claim C10. Whatever the threshold, the counts of the rows that the genre distribution
  returns add up to the number of rows of the table; when some genre is below the
  threshold the result is the major genres followed by the row \<open>Other\<close>, whose count is
  the number of rows of the table minus the counts of the major genres.
\<close>

theorem genre_distribution_count_conservation:
  assumes "genre_distribution df min_pct = Inr out"
  shows "sum_list (map gc_count out) = length (rows df)
         \<and> (let major = filter (\<lambda>g. gc_pct g \<ge> min_pct) (genre_counts (rows df));
                 minor = filter (\<lambda>g. gc_pct g < min_pct) (genre_counts (rows df))
            in minor \<noteq> [] \<longrightarrow>
                 out = major @ [other_row minor]
                 \<and> int (gc_count (other_row minor))
                     = int (length (rows df)) - int (sum_list (map gc_count major)))"
proof -
  let ?major = "filter (\<lambda>g. gc_pct g \<ge> min_pct) (genre_counts (rows df))"
  let ?minor = "filter (\<lambda>g. gc_pct g < min_pct) (genre_counts (rows df))"
  have total: "sum_list (map gc_count out) = length (rows df)"
    using assms by (rule genre_distribution_count_sum)
  have "out = ?major @ [other_row ?minor]
        \<and> int (gc_count (other_row ?minor))
            = int (length (rows df)) - int (sum_list (map gc_count ?major))"
    if "?minor \<noteq> []"
  proof -
    from that have out: "out = ?major @ [other_row ?minor]"
      using genre_distribution_cases [OF assms] by simp
    with total have "sum_list (map gc_count ?major) + gc_count (other_row ?minor)
                     = length (rows df)"
      by simp
    with out show ?thesis by linarith
  qed
  with total show ?thesis by (simp add: Let_def)
qed

theorem genre_distribution_count_conservation_witness:
  "genre_distribution example_table 20 =
       Inr [\<lparr>gc_genres = ''Comedy'', gc_count = 10, gc_pct = 250 / 3\<rparr>,
            \<lparr>gc_genres = ''Other'', gc_count = 2, gc_pct = 50 / 3\<rparr>]
   \<and> filter (\<lambda>g. gc_pct g < 20) (genre_counts (rows example_table)) \<noteq> []
   \<and> sum_list (map gc_count [\<lparr>gc_genres = ''Comedy'', gc_count = 10, gc_pct = 250 / 3\<rparr>,
            \<lparr>gc_genres = ''Other'', gc_count = 2, gc_pct = 50 / 3\<rparr>]) = length (rows example_table)
   \<and> length (rows example_table) = 12
   \<and> int (gc_count (other_row (filter (\<lambda>g. gc_pct g < 20) (genre_counts (rows example_table)))))
       = int (length (rows example_table))
         - int (sum_list (map gc_count (filter (\<lambda>g. gc_pct g \<ge> 20) (genre_counts (rows example_table)))))"
proof -
  have h: "genre_distribution example_table 20 =
       Inr [\<lparr>gc_genres = ''Comedy'', gc_count = 10, gc_pct = 250 / 3\<rparr>,
            \<lparr>gc_genres = ''Other'', gc_count = 2, gc_pct = 50 / 3\<rparr>]"
    by code_simp
  have m: "filter (\<lambda>g. gc_pct g < 20) (genre_counts (rows example_table)) \<noteq> []"
    by code_simp
  have n: "length (rows example_table) = 12"
    by code_simp
  from genre_distribution_count_conservation [OF h] h m n show ?thesis
    unfolding Let_def by blast
qed

subsection \<open>Genre rating\<close>

lemma length_sort_values: "length (sort_values key asc xs) = length xs"
  by (simp add: sort_values_def)

lemma sort_values_ascending:
  "sorted_wrt (\<lambda>a b. key a \<le> key b) (sort_values key True xs)"
  using sorted_sort_key [of key xs] by (simp add: sort_values_def sorted_map)

lemma sort_values_descending:
  "sorted_wrt (\<lambda>a b. key a \<ge> key b) (sort_values key False xs)"
  using sorted_sort_key [of key "rev xs"]
  by (simp add: sort_values_def sorted_map sorted_wrt_rev)

lemma length_filter_mono:
  "(\<And>x. x \<in> set xs \<Longrightarrow> P x \<Longrightarrow> Q x) \<Longrightarrow> length (filter P xs) \<le> length (filter Q xs)"
  by (induction xs) auto

lemma genre_rating_cases:
  assumes "genre_rating df min_ratings order = Inr out"
  shows "out = sort_values gs_avg_rating (order = Low_to_High)
                 (filter (\<lambda>s. int (gs_num_ratings s) \<ge> min_ratings) (genre_stats (rows df)))"
  using assms by (auto simp: genre_rating_def Let_def split: if_splits)

lemma genre_stats_member:
  assumes "s \<in> set (genre_stats rs)"
  shows "gs_avg_rating s = mean (map rating (filter (\<lambda>r. genres r = gs_genres s) rs))
         \<and> gs_num_ratings s = length (filter (\<lambda>r. genres r = gs_genres s) rs)
         \<and> gs_genres s \<in> genres ` set rs"
proof -
  from assms obtain k grp where kg: "(k, grp) \<in> set (groupby genres rs)"
    and s: "s = \<lparr>gs_genres = k, gs_avg_rating = mean (map rating grp), gs_num_ratings = length grp\<rparr>"
    by (auto simp: genre_stats_def)
  from groupby_member [OF kg] s show ?thesis by simp
qed

lemma genre_stats_keys: "map gs_genres (genre_stats rs) = sort (remdups (map genres rs))"
  by (simp add: genre_stats_def groupby_def comp_def)

lemma distinct_map_sort_values:
  "distinct (map f (sort_values key asc xs)) = distinct (map f xs)"
  by (simp add: sort_values_def distinct_map)

lemma genre_rating_groups:
  assumes "genre_rating df min_ratings order = Inr out"
  shows "distinct (map gs_genres out)"
    and "set (map gs_genres out)
         = {g \<in> genres ` set (rows df).
              min_ratings \<le> int (length (filter (\<lambda>r. genres r = g) (rows df)))}"
proof -
  let ?P = "\<lambda>s. int (gs_num_ratings s) \<ge> min_ratings"
  let ?st = "genre_stats (rows df)"
  note out = genre_rating_cases [OF assms]
  have d: "distinct (map gs_genres ?st)"
    by (simp add: genre_stats_keys)
  then show "distinct (map gs_genres out)"
    unfolding out by (simp add: distinct_map_sort_values distinct_map_filter)
  have "set (map gs_genres out) = gs_genres ` {s \<in> set ?st. ?P s}"
    unfolding out by (simp add: sort_values_def)
  also have "\<dots> = {g \<in> genres ` set (rows df).
              min_ratings \<le> int (length (filter (\<lambda>r. genres r = g) (rows df)))}"
  proof (intro set_eqI iffI)
    fix g assume "g \<in> gs_genres ` {s \<in> set ?st. ?P s}"
    then obtain s where s: "s \<in> set ?st" "?P s" "g = gs_genres s" by auto
    from genre_stats_member [OF s(1)] s(2,3)
    show "g \<in> {g \<in> genres ` set (rows df).
              min_ratings \<le> int (length (filter (\<lambda>r. genres r = g) (rows df)))}"
      by simp
  next
    fix g assume g: "g \<in> {g \<in> genres ` set (rows df).
              min_ratings \<le> int (length (filter (\<lambda>r. genres r = g) (rows df)))}"
    then have "g \<in> set (map gs_genres ?st)"
      by (simp add: genre_stats_keys)
    then obtain s where s: "s \<in> set ?st" "gs_genres s = g" by auto
    from genre_stats_member [OF s(1)] s(2) g have "?P s" by simp
    with s show "g \<in> gs_genres ` {s \<in> set ?st. ?P s}" by auto
  qed
  finally show "set (map gs_genres out)
         = {g \<in> genres ` set (rows df).
              min_ratings \<le> int (length (filter (\<lambda>r. genres r = g) (rows df)))}" .
qed

text \<open>
  Claim C4. The genre-rating pipeline returns the genres with their mean ratings
  non-increasing when the order is \<open>High_to_Low\<close> and non-decreasing when it is
  \<open>Low_to_High\<close>, for every table and every \<open>min_ratings\<close>. The mean rating of a returned
  row is the mean of the ratings of its genre in the table and its count their number, and
  the returned genres are, each once, exactly the genres of the table with at least
  \<open>min_ratings\<close> ratings.
\<close>

theorem genre_rating_sorted:
  assumes "genre_rating df min_ratings order = Inr out"
  shows "(order = High_to_Low \<longrightarrow> sorted_wrt (\<lambda>a b. gs_avg_rating a \<ge> gs_avg_rating b) out)
         \<and> (order = Low_to_High \<longrightarrow> sorted_wrt (\<lambda>a b. gs_avg_rating a \<le> gs_avg_rating b) out)
         \<and> (\<forall>s \<in> set out.
                gs_avg_rating s
                  = mean (map rating (filter (\<lambda>r. genres r = gs_genres s) (rows df)))
                \<and> gs_num_ratings s = length (filter (\<lambda>r. genres r = gs_genres s) (rows df)))
         \<and> distinct (map gs_genres out)
         \<and> set (map gs_genres out)
             = {g \<in> genres ` set (rows df).
                  min_ratings \<le> int (length (filter (\<lambda>r. genres r = g) (rows df)))}"
proof -
  note out = genre_rating_cases [OF assms]
  have sorted: "(order = High_to_Low \<longrightarrow> sorted_wrt (\<lambda>a b. gs_avg_rating a \<ge> gs_avg_rating b) out)
         \<and> (order = Low_to_High \<longrightarrow> sorted_wrt (\<lambda>a b. gs_avg_rating a \<le> gs_avg_rating b) out)"
    unfolding out
    by (cases order) (simp_all add: sort_values_ascending sort_values_descending)
  have "s \<in> set (genre_stats (rows df))" if "s \<in> set out" for s
    using that unfolding out by (simp add: sort_values_def split: if_splits)
  then have stats: "\<forall>s \<in> set out.
                gs_avg_rating s
                  = mean (map rating (filter (\<lambda>r. genres r = gs_genres s) (rows df)))
                \<and> gs_num_ratings s = length (filter (\<lambda>r. genres r = gs_genres s) (rows df))"
    using genre_stats_member by blast
  from sorted stats genre_rating_groups [OF assms] show ?thesis
    by blast
qed

theorem genre_rating_sorted_witness:
  "genre_rating mixed_ratings 0 High_to_Low =
     Inr [\<lparr>gs_genres = ''Comedy'', gs_avg_rating = 4, gs_num_ratings = 4\<rparr>,
          \<lparr>gs_genres = ''Drama'', gs_avg_rating = 7 / 3, gs_num_ratings = 3\<rparr>]
   \<and> sorted_wrt (\<lambda>a b. gs_avg_rating a \<ge> gs_avg_rating b)
         [\<lparr>gs_genres = ''Comedy'', gs_avg_rating = 4, gs_num_ratings = 4\<rparr>,
          \<lparr>gs_genres = ''Drama'', gs_avg_rating = 7 / 3, gs_num_ratings = 3\<rparr>]
   \<and> genre_rating mixed_ratings 0 Low_to_High =
     Inr [\<lparr>gs_genres = ''Drama'', gs_avg_rating = 7 / 3, gs_num_ratings = 3\<rparr>,
          \<lparr>gs_genres = ''Comedy'', gs_avg_rating = 4, gs_num_ratings = 4\<rparr>]
   \<and> sorted_wrt (\<lambda>a b. gs_avg_rating a \<le> gs_avg_rating b)
         [\<lparr>gs_genres = ''Drama'', gs_avg_rating = 7 / 3, gs_num_ratings = 3\<rparr>,
          \<lparr>gs_genres = ''Comedy'', gs_avg_rating = 4, gs_num_ratings = 4\<rparr>]
   \<and> mean (map rating (filter (\<lambda>r. genres r = ''Drama'') (rows mixed_ratings))) = 7 / 3
   \<and> mean (map rating (filter (\<lambda>r. genres r = ''Comedy'') (rows mixed_ratings))) = 4
   \<and> length (filter (\<lambda>r. genres r = ''Drama'') (rows mixed_ratings)) = 3
   \<and> {g \<in> genres ` set (rows mixed_ratings).
         0 \<le> int (length (filter (\<lambda>r. genres r = g) (rows mixed_ratings)))}
       = {''Comedy'', ''Drama''}"
proof -
  have h1: "genre_rating mixed_ratings 0 High_to_Low =
     Inr [\<lparr>gs_genres = ''Comedy'', gs_avg_rating = 4, gs_num_ratings = 4\<rparr>,
          \<lparr>gs_genres = ''Drama'', gs_avg_rating = 7 / 3, gs_num_ratings = 3\<rparr>]"
    by code_simp
  have h2: "genre_rating mixed_ratings 0 Low_to_High =
     Inr [\<lparr>gs_genres = ''Drama'', gs_avg_rating = 7 / 3, gs_num_ratings = 3\<rparr>,
          \<lparr>gs_genres = ''Comedy'', gs_avg_rating = 4, gs_num_ratings = 4\<rparr>]"
    by code_simp
  note t1 = genre_rating_sorted [OF h1]
  note t2 = genre_rating_sorted [OF h2]
  from t1 have s1: "sorted_wrt (\<lambda>a b. gs_avg_rating a \<ge> gs_avg_rating b)
         [\<lparr>gs_genres = ''Comedy'', gs_avg_rating = 4, gs_num_ratings = 4\<rparr>,
          \<lparr>gs_genres = ''Drama'', gs_avg_rating = 7 / 3, gs_num_ratings = 3\<rparr>]"
    by blast
  from t2 have s2: "sorted_wrt (\<lambda>a b. gs_avg_rating a \<le> gs_avg_rating b)
         [\<lparr>gs_genres = ''Drama'', gs_avg_rating = 7 / 3, gs_num_ratings = 3\<rparr>,
          \<lparr>gs_genres = ''Comedy'', gs_avg_rating = 4, gs_num_ratings = 4\<rparr>]"
    by blast
  from t1 have m1: "mean (map rating (filter (\<lambda>r. genres r = ''Drama'') (rows mixed_ratings))) = 7 / 3"
    and m2: "mean (map rating (filter (\<lambda>r. genres r = ''Comedy'') (rows mixed_ratings))) = 4"
    and n1: "length (filter (\<lambda>r. genres r = ''Drama'') (rows mixed_ratings)) = 3"
    by simp_all
  from t1 have g: "{g \<in> genres ` set (rows mixed_ratings).
         0 \<le> int (length (filter (\<lambda>r. genres r = g) (rows mixed_ratings)))}
       = {''Comedy'', ''Drama''}"
    by simp
  from h1 s1 h2 s2 m1 m2 n1 g show ?thesis
    by (intro conjI)
qed

text \<open>
  Claim C5. Raising \<open>min_ratings\<close> never increases the number of genres that the
  genre-rating pipeline returns: for thresholds \<open>a \<le> b\<close> the result for \<open>b\<close> is at most as
  long as the result for \<open>a\<close> (whatever the two sort orders).
\<close>

theorem genre_rating_filter_monotone:
  assumes "a \<le> b"
    and "genre_rating df a order_a = Inr out_a"
    and "genre_rating df b order_b = Inr out_b"
  shows "length out_b \<le> length out_a"
  unfolding genre_rating_cases [OF assms(2)] genre_rating_cases [OF assms(3)] length_sort_values
  using assms(1) by (intro length_filter_mono) simp

theorem genre_rating_filter_monotone_witness:
  "(0::int) \<le> 5
   \<and> genre_rating example_table 0 High_to_Low =
     Inr [\<lparr>gs_genres = ''Comedy'', gs_avg_rating = 4, gs_num_ratings = 10\<rparr>,
          \<lparr>gs_genres = ''Drama'', gs_avg_rating = 2, gs_num_ratings = 2\<rparr>]
   \<and> genre_rating example_table 5 High_to_Low =
     Inr [\<lparr>gs_genres = ''Comedy'', gs_avg_rating = 4, gs_num_ratings = 10\<rparr>]
   \<and> length [\<lparr>gs_genres = ''Comedy'', gs_avg_rating = 4, gs_num_ratings = 10\<rparr>]
     \<le> length [\<lparr>gs_genres = ''Comedy'', gs_avg_rating = 4, gs_num_ratings = 10\<rparr>,
               \<lparr>gs_genres = ''Drama'', gs_avg_rating = 2, gs_num_ratings = 2\<rparr>]"
proof -
  have h0: "(0::int) \<le> 5"
    by simp
  have h1: "genre_rating example_table 0 High_to_Low =
     Inr [\<lparr>gs_genres = ''Comedy'', gs_avg_rating = 4, gs_num_ratings = 10\<rparr>,
          \<lparr>gs_genres = ''Drama'', gs_avg_rating = 2, gs_num_ratings = 2\<rparr>]"
    by code_simp
  have h2: "genre_rating example_table 5 High_to_Low =
     Inr [\<lparr>gs_genres = ''Comedy'', gs_avg_rating = 4, gs_num_ratings = 10\<rparr>]"
    by code_simp
  from genre_rating_filter_monotone [OF h0 h1 h2] h0 h1 h2 show ?thesis
    by blast
qed

subsection \<open>Year trend\<close>

lemma length_rolling_mean_center [simp]:
  "length (rolling_mean_center w xs) = length xs"
  by (simp add: rolling_mean_center_def Let_def)

lemma rolling_mean_center_nth:
  assumes "1 < w" and "i < length xs"
  shows "rolling_mean_center w xs ! i =
           (if i < nat (w div 2) \<or> length xs \<le> i + nat ((w - 1) div 2) then None
            else Some (mean (take (nat w) (drop (i - nat (w div 2)) xs))))"
proof -
  define n where "n = int (length xs)"
  define off where "off = (w - 1) div 2"
  define e_raw where "e_raw = int i + 1 + off"
  define s_raw where "s_raw = e_raw - w"
  have half: "w - 1 - off = w div 2" and off0: "0 \<le> off"
    using assms(1) unfolding off_def by presburger+
  have val: "rolling_mean_center w xs ! i =
      (if max 0 (min n e_raw) - max 0 (min n s_raw) < w then None
       else Some (mean (take (nat (max 0 (min n e_raw) - max 0 (min n s_raw)))
                         (drop (nat (max 0 (min n s_raw))) xs))))"
  proof -
    have idx: "[0..<length xs] ! i = i" and len: "i < length [0..<length xs]"
      using assms(2) by simp_all
    show ?thesis
      unfolding rolling_mean_center_def Let_def n_def off_def e_raw_def s_raw_def
      by (simp only: nth_map [OF len] idx)
  qed
  have s: "s_raw = int i - w div 2"
    using half unfolding s_raw_def e_raw_def by linarith
  have i_n: "int i < n" using assms(2) by (simp add: n_def)
  show ?thesis
  proof (cases "i < nat (w div 2) \<or> length xs \<le> i + nat ((w - 1) div 2)")
    case True
    then have "s_raw < 0 \<or> n < e_raw"
      using s off0 unfolding e_raw_def n_def off_def by linarith
    then have "max 0 (min n e_raw) - max 0 (min n s_raw) < w"
      using i_n off0 assms(1) unfolding s_raw_def e_raw_def by linarith
    with True val show ?thesis by simp
  next
    case False
    then have b: "0 \<le> s_raw" "e_raw \<le> n"
      using s off0 assms(1) unfolding e_raw_def n_def off_def by linarith+
    have "0 \<le> e_raw" "s_raw \<le> n"
      using b assms(1) off0 unfolding s_raw_def e_raw_def by linarith+
    with b have "max 0 (min n e_raw) = e_raw" "max 0 (min n s_raw) = s_raw"
      by linarith+
    moreover have "nat s_raw = i - nat (w div 2)"
      using assms(1) unfolding s by (simp add: nat_diff_distrib')
    ultimately have "rolling_mean_center w xs ! i
        = Some (mean (take (nat w) (drop (i - nat (w div 2)) xs)))"
      using val unfolding s_raw_def by simp
    with False show ?thesis by simp
  qed
qed

lemma year_stats_member:
  assumes "s \<in> set (year_stats rs)"
  shows "ys_avg_rating s = mean (map rating (filter (\<lambda>r. year r = ys_year s) rs))
         \<and> ys_n_ratings s = length (filter (\<lambda>r. year r = ys_year s) rs)
         \<and> ys_year s \<in> year ` set rs"
proof -
  from assms obtain k grp where kg: "(k, grp) \<in> set (groupby year rs)"
    and s: "s = \<lparr>ys_year = k, ys_avg_rating = mean (map rating grp), ys_n_ratings = length grp\<rparr>"
    by (auto simp: year_stats_def)
  from groupby_member [OF kg] s show ?thesis by simp
qed

lemma year_trend_unsmoothed_cases:
  assumes "year_trend df year_range min_count_year w = Inr out" and "\<not> 1 < w"
  shows "out = map (\<lambda>s. with_smoothed s (Some (ys_avg_rating s)))
                 (filter (\<lambda>s. ys_year s \<ge> fst year_range \<and> ys_year s \<le> snd year_range
                           \<and> int (ys_n_ratings s) \<ge> min_count_year)
                     (year_stats (rows df)))"
  using assms by (auto simp: year_trend_def Let_def split: if_splits)

text \<open>
  Claim C6. With \<open>smooth_window = 1\<close> every year that the year-trend pipeline returns
  has its smoothed mean equal to its raw mean, which is the mean of the ratings of that
  year in the table; for every table, year range and \<open>min_count_year\<close>.
\<close>

theorem year_trend_window_one:
  assumes "year_trend df year_range min_count_year 1 = Inr out"
  shows "\<forall>p \<in> set out.
           yp_avg_smoothed p = Some (yp_avg_rating p)
           \<and> yp_avg_rating p = mean (map rating (filter (\<lambda>r. year r = yp_year p) (rows df)))"
proof
  fix p assume "p \<in> set out"
  then obtain s where s: "s \<in> set (year_stats (rows df))"
    and p: "p = with_smoothed s (Some (ys_avg_rating s))"
    unfolding year_trend_unsmoothed_cases [OF assms, simplified] by auto
  from year_stats_member [OF s] p
  show "yp_avg_smoothed p = Some (yp_avg_rating p)
        \<and> yp_avg_rating p = mean (map rating (filter (\<lambda>r. year r = yp_year p) (rows df)))"
    by (simp add: with_smoothed_def)
qed

theorem year_trend_window_one_witness:
  "year_trend five_years (2001, 2004) 0 1 =
     Inr [\<lparr>yp_year = 2001, yp_avg_rating = 2, yp_n_ratings = 1, yp_avg_smoothed = Some 2\<rparr>,
            \<lparr>yp_year = 2002, yp_avg_rating = 3, yp_n_ratings = 1, yp_avg_smoothed = Some 3\<rparr>,
            \<lparr>yp_year = 2003, yp_avg_rating = 4, yp_n_ratings = 1, yp_avg_smoothed = Some 4\<rparr>,
            \<lparr>yp_year = 2004, yp_avg_rating = 5, yp_n_ratings = 1, yp_avg_smoothed = Some 5\<rparr>]
   \<and> list_all (\<lambda>p. yp_avg_smoothed p = Some (yp_avg_rating p)
                     \<and> yp_avg_rating p
                         = mean (map rating (filter (\<lambda>r. year r = yp_year p) (rows five_years))))
           [\<lparr>yp_year = 2001, yp_avg_rating = 2, yp_n_ratings = 1, yp_avg_smoothed = Some 2\<rparr>,
            \<lparr>yp_year = 2002, yp_avg_rating = 3, yp_n_ratings = 1, yp_avg_smoothed = Some 3\<rparr>,
            \<lparr>yp_year = 2003, yp_avg_rating = 4, yp_n_ratings = 1, yp_avg_smoothed = Some 4\<rparr>,
            \<lparr>yp_year = 2004, yp_avg_rating = 5, yp_n_ratings = 1, yp_avg_smoothed = Some 5\<rparr>]"
proof -
  have h: "year_trend five_years (2001, 2004) 0 1 =
     Inr [\<lparr>yp_year = 2001, yp_avg_rating = 2, yp_n_ratings = 1, yp_avg_smoothed = Some 2\<rparr>,
            \<lparr>yp_year = 2002, yp_avg_rating = 3, yp_n_ratings = 1, yp_avg_smoothed = Some 3\<rparr>,
            \<lparr>yp_year = 2003, yp_avg_rating = 4, yp_n_ratings = 1, yp_avg_smoothed = Some 4\<rparr>,
            \<lparr>yp_year = 2004, yp_avg_rating = 5, yp_n_ratings = 1, yp_avg_smoothed = Some 5\<rparr>]"
    by code_simp
  from year_trend_window_one [OF h] h show ?thesis
    unfolding list_all_iff by blast
qed

lemma year_trend_smoothed_cases:
  assumes "year_trend df year_range min_count_year w = Inr out" and "1 < w"
  shows "map yp_avg_smoothed out = rolling_mean_center w (map yp_avg_rating out)"
proof -
  let ?yf = "filter (\<lambda>s. ys_year s \<ge> fst year_range \<and> ys_year s \<le> snd year_range
                           \<and> int (ys_n_ratings s) \<ge> min_count_year)
                     (year_stats (rows df))"
  let ?sm = "rolling_mean_center w (map ys_avg_rating ?yf)"
  have len: "length ?sm = length ?yf" by simp
  show ?thesis
  proof (cases "?yf = []")
    case True
    with assms have "out = []"
      by (auto simp: year_trend_def Let_def split: if_splits)
    then show ?thesis by (simp add: rolling_mean_center_def)
  next
    case False
    with assms have out: "out = map2 with_smoothed ?yf ?sm"
      by (auto simp: year_trend_def Let_def split: if_splits)
    have raw: "map yp_avg_rating out = map ys_avg_rating ?yf"
      unfolding out using len
      by (intro nth_equalityI) (simp_all add: with_smoothed_def)
    have "map yp_avg_smoothed out = ?sm"
      unfolding out using len
      by (intro nth_equalityI) (simp_all add: with_smoothed_def)
    with raw show ?thesis by simp
  qed
qed

text \<open>
  Claim C7, as stated: for every window \<open>w > 1\<close> the smoothed value is missing at exactly
  the \<open>(w - 1) / 2\<close> positions at each end of the filtered sequence. With the even window
  4 over five years, \<open>(w - 1) / 2\<close> is 1 (rounded down), yet the second position is
  missing as well: pandas labels an even window right of its centre, so two positions are
  missing at the start and one at the end.
\<close>

theorem year_trend_even_window_counterexample:
  "year_trend five_years (2000, 2004) 0 4 =
     Inr [\<lparr>yp_year = 2000, yp_avg_rating = 1, yp_n_ratings = 1, yp_avg_smoothed = None\<rparr>,
            \<lparr>yp_year = 2001, yp_avg_rating = 2, yp_n_ratings = 1, yp_avg_smoothed = None\<rparr>,
            \<lparr>yp_year = 2002, yp_avg_rating = 3, yp_n_ratings = 1, yp_avg_smoothed = Some (5 / 2)\<rparr>,
            \<lparr>yp_year = 2003, yp_avg_rating = 4, yp_n_ratings = 1, yp_avg_smoothed = Some (7 / 2)\<rparr>,
            \<lparr>yp_year = 2004, yp_avg_rating = 5, yp_n_ratings = 1, yp_avg_smoothed = None\<rparr>]
   \<and> yp_avg_smoothed (projr (year_trend five_years (2000, 2004) 0 4) ! 1) = None
   \<and> \<not> ((1::nat) < nat ((4 - 1) div 2) \<or> 5 - nat ((4 - 1) div 2) \<le> (1::nat))"
proof -
  have h: "year_trend five_years (2000, 2004) 0 4 =
     Inr [\<lparr>yp_year = 2000, yp_avg_rating = 1, yp_n_ratings = 1, yp_avg_smoothed = None\<rparr>,
            \<lparr>yp_year = 2001, yp_avg_rating = 2, yp_n_ratings = 1, yp_avg_smoothed = None\<rparr>,
            \<lparr>yp_year = 2002, yp_avg_rating = 3, yp_n_ratings = 1, yp_avg_smoothed = Some (5 / 2)\<rparr>,
            \<lparr>yp_year = 2003, yp_avg_rating = 4, yp_n_ratings = 1, yp_avg_smoothed = Some (7 / 2)\<rparr>,
            \<lparr>yp_year = 2004, yp_avg_rating = 5, yp_n_ratings = 1, yp_avg_smoothed = None\<rparr>]"
    by code_simp
  show ?thesis
    unfolding h by simp
qed

text \<open>
  Claim C7, amended: for every window \<open>w > 1\<close> the smoothed value of the year-trend
  pipeline is missing at exactly the first \<open>w div 2\<close> and the last \<open>(w - 1) div 2\<close>
  positions of the filtered sequence, and at every other position \<open>i\<close> it is the mean of
  the \<open>w\<close> consecutive raw means that start at position \<open>i - w div 2\<close>. For an odd window
  both numbers are \<open>(w - 1) / 2\<close>, so the missing positions are exactly the
  \<open>(w - 1) / 2\<close> ones at each end.
\<close>

theorem year_trend_smoothing_boundary:
  assumes "year_trend df year_range min_count_year w = Inr out" and "1 < w"
  shows "(\<forall>i < length out.
            yp_avg_smoothed (out ! i) =
              (if i < nat (w div 2) \<or> length out \<le> i + nat ((w - 1) div 2) then None
               else Some (mean (map yp_avg_rating
                                  (take (nat w) (drop (i - nat (w div 2)) out))))))
         \<and> (odd w \<longrightarrow>
              (\<forall>i < length out.
                 yp_avg_smoothed (out ! i) = None
                 \<longleftrightarrow> i < nat ((w - 1) div 2) \<or> length out - nat ((w - 1) div 2) \<le> i))"
proof -
  have sm: "map yp_avg_smoothed out = rolling_mean_center w (map yp_avg_rating out)"
    using assms by (rule year_trend_smoothed_cases)
  have main: "yp_avg_smoothed (out ! i) =
              (if i < nat (w div 2) \<or> length out \<le> i + nat ((w - 1) div 2) then None
               else Some (mean (map yp_avg_rating
                                  (take (nat w) (drop (i - nat (w div 2)) out)))))"
    if i: "i < length out" for i
  proof -
    have "yp_avg_smoothed (out ! i) = map yp_avg_smoothed out ! i"
      using i by simp
    also have "\<dots> = rolling_mean_center w (map yp_avg_rating out) ! i"
      by (simp only: sm)
    also have "\<dots> = (if i < nat (w div 2) \<or> length out \<le> i + nat ((w - 1) div 2) then None
               else Some (mean (map yp_avg_rating
                                  (take (nat w) (drop (i - nat (w div 2)) out)))))"
      using rolling_mean_center_nth [OF assms(2), of i "map yp_avg_rating out"] i
      by (simp add: take_map drop_map)
    finally show ?thesis .
  qed
  have "yp_avg_smoothed (out ! i) = None
        \<longleftrightarrow> i < nat ((w - 1) div 2) \<or> length out - nat ((w - 1) div 2) \<le> i"
    if "odd w" and i: "i < length out" for i
  proof -
    from \<open>odd w\<close> have "w div 2 = (w - 1) div 2"
      by presburger
    with main [OF i] show ?thesis
      by auto
  qed
  with main show ?thesis
    by blast
qed

theorem year_trend_smoothing_boundary_witness:
  "(1::int) < 3 \<and> odd (3::int)
   \<and> year_trend five_years (2000, 2004) 0 3 =
     Inr [\<lparr>yp_year = 2000, yp_avg_rating = 1, yp_n_ratings = 1, yp_avg_smoothed = None\<rparr>,
          \<lparr>yp_year = 2001, yp_avg_rating = 2, yp_n_ratings = 1, yp_avg_smoothed = Some 2\<rparr>,
          \<lparr>yp_year = 2002, yp_avg_rating = 3, yp_n_ratings = 1, yp_avg_smoothed = Some 3\<rparr>,
          \<lparr>yp_year = 2003, yp_avg_rating = 4, yp_n_ratings = 1, yp_avg_smoothed = Some 4\<rparr>,
          \<lparr>yp_year = 2004, yp_avg_rating = 5, yp_n_ratings = 1, yp_avg_smoothed = None\<rparr>]
   \<and> yp_avg_smoothed (projr (year_trend five_years (2000, 2004) 0 3) ! 0) = None
   \<and> yp_avg_smoothed (projr (year_trend five_years (2000, 2004) 0 3) ! 2) = Some 3
   \<and> yp_avg_smoothed (projr (year_trend five_years (2000, 2004) 0 3) ! 4) = None"
proof -
  have w: "(1::int) < 3" and o: "odd (3::int)"
    by simp_all
  have h: "year_trend five_years (2000, 2004) 0 3 =
     Inr [\<lparr>yp_year = 2000, yp_avg_rating = 1, yp_n_ratings = 1, yp_avg_smoothed = None\<rparr>,
          \<lparr>yp_year = 2001, yp_avg_rating = 2, yp_n_ratings = 1, yp_avg_smoothed = Some 2\<rparr>,
          \<lparr>yp_year = 2002, yp_avg_rating = 3, yp_n_ratings = 1, yp_avg_smoothed = Some 3\<rparr>,
          \<lparr>yp_year = 2003, yp_avg_rating = 4, yp_n_ratings = 1, yp_avg_smoothed = Some 4\<rparr>,
          \<lparr>yp_year = 2004, yp_avg_rating = 5, yp_n_ratings = 1, yp_avg_smoothed = None\<rparr>]"
    by code_simp
  note general = year_trend_smoothing_boundary [OF h w, THEN conjunct1, rule_format]
  note odd_window = year_trend_smoothing_boundary [OF h w, THEN conjunct2, rule_format, OF o]
  have p0: "yp_avg_smoothed (projr (year_trend five_years (2000, 2004) 0 3) ! 0) = None"
    unfolding h using general [of 0] by simp
  have p2: "yp_avg_smoothed (projr (year_trend five_years (2000, 2004) 0 3) ! 2) = Some 3"
    unfolding h using general [of 2] by (simp add: mean_def)
  have p4: "yp_avg_smoothed (projr (year_trend five_years (2000, 2004) 0 3) ! 4) = None"
    unfolding h using odd_window [of 4] by simp
  from w o h p0 p2 p4 show ?thesis
    by blast
qed

subsection \<open>Top movies\<close>

lemma length_head: "0 \<le> n \<Longrightarrow> length (head n xs) = min (nat n) (length xs)"
  by (simp add: head_def)

lemma sorted_wrt_head: "sorted_wrt R xs \<Longrightarrow> sorted_wrt R (head n xs)"
  by (simp add: head_def sorted_wrt_take)

lemma sort_values_desc2_sorted:
  "sorted_wrt (\<lambda>a b. ms_avg_rating a > ms_avg_rating b
                     \<or> (ms_avg_rating a = ms_avg_rating b \<and> ms_n_ratings a \<ge> ms_n_ratings b))
     (sort_values_desc2 xs)"
proof -
  let ?key = "\<lambda>m. (- ms_avg_rating m, - int (ms_n_ratings m))"
  have "sorted_wrt (\<lambda>a b. ?key a \<le> ?key b) (sort_values_desc2 xs)"
    using sorted_sort_key [of ?key xs] by (simp add: sort_values_desc2_def sorted_map)
  then show ?thesis
    by (rule sorted_wrt_mono_rel [rotated]) auto
qed

lemma length_sort_values_desc2: "length (sort_values_desc2 xs) = length xs"
  by (simp add: sort_values_desc2_def)

lemma movie_stats_filter_length:
  "length (filter (\<lambda>m. int (ms_n_ratings m) \<ge> c) (movie_stats rs))
   = card {k \<in> (\<lambda>r. (movie_id r, title r)) ` set rs.
             c \<le> int (length (filter (\<lambda>r. (movie_id r, title r) = k) rs))}"
proof -
  let ?key = "\<lambda>r. (movie_id r, title r)"
  let ?ks = "sort (remdups (map ?key rs))"
  let ?P = "\<lambda>k. c \<le> int (length (filter (\<lambda>r. ?key r = k) rs))"
  have "length (filter (\<lambda>m. int (ms_n_ratings m) \<ge> c) (movie_stats rs))
        = length (filter ?P ?ks)"
    by (simp add: movie_stats_def groupby_def filter_map comp_def case_prod_unfold)
  also have "\<dots> = card ({k. ?P k} \<inter> set ?ks)"
    by (rule distinct_length_filter) simp
  also have "{k. ?P k} \<inter> set ?ks = {k \<in> ?key ` set rs. ?P k}"
    by auto
  finally show ?thesis .
qed

lemma top_movies_cases:
  assumes "top_movies df min_movie_ratings top_n = Inr out"
  shows "out = head top_n (sort_values_desc2
                 (filter (\<lambda>m. int (ms_n_ratings m) \<ge> min_movie_ratings) (movie_stats (rows df))))"
  using assms by (auto simp: top_movies_def Let_def split: if_splits)

lemma movie_stats_member:
  assumes "m \<in> set (movie_stats rs)"
  shows "ms_avg_rating m
           = mean (map rating (filter (\<lambda>r. (movie_id r, title r) = (ms_movie_id m, ms_title m)) rs))
         \<and> ms_n_ratings m
           = length (filter (\<lambda>r. (movie_id r, title r) = (ms_movie_id m, ms_title m)) rs)
         \<and> (ms_movie_id m, ms_title m) \<in> (\<lambda>r. (movie_id r, title r)) ` set rs"
proof -
  from assms obtain i t grp
    where kg: "((i, t), grp) \<in> set (groupby (\<lambda>r. (movie_id r, title r)) rs)"
    and m: "m = \<lparr>ms_movie_id = i, ms_title = t, ms_avg_rating = mean (map rating grp),
                  ms_n_ratings = length grp\<rparr>"
    by (auto simp: movie_stats_def)
  from groupby_member [OF kg] m show ?thesis by simp
qed

lemma movie_stats_keys:
  "map (\<lambda>m. (ms_movie_id m, ms_title m)) (movie_stats rs)
   = sort (remdups (map (\<lambda>r. (movie_id r, title r)) rs))"
  by (simp add: movie_stats_def groupby_def comp_def case_prod_unfold)

lemma set_sort_values_desc2: "set (sort_values_desc2 xs) = set xs"
  by (simp add: sort_values_desc2_def)

lemma distinct_map_sort_values_desc2:
  "distinct (map f (sort_values_desc2 xs)) = distinct (map f xs)"
  by (simp add: sort_values_desc2_def distinct_map)

lemma head_take: "0 \<le> n \<Longrightarrow> head n xs = take (nat n) xs"
  by (simp add: head_def)

lemma sorted_wrt_take_drop:
  assumes "sorted_wrt R xs" and "a \<in> set (take n xs)" and "b \<in> set (drop n xs)"
  shows "R a b"
proof -
  from assms(1) have "sorted_wrt R (take n xs @ drop n xs)" by simp
  with assms(2,3) show ?thesis
    unfolding sorted_wrt_append by blast
qed

lemma not_in_take_in_drop:
  "x \<in> set xs \<Longrightarrow> x \<notin> set (take n xs) \<Longrightarrow> x \<in> set (drop n xs)"
  by (metis Un_iff append_take_drop_id set_append)

text \<open>
  Claim C3. For every table, every \<open>min_movie_ratings\<close> and every \<open>top_n \<ge> 0\<close> (the
  widgets give \<open>min_movie_ratings \<ge> 1\<close> and \<open>top_n\<close> from 3 to 25), the top-movies pipeline
  returns exactly \<open>min top_n k\<close> rows, where \<open>k\<close> is the number of pairs of movie id and
  title that have at least \<open>min_movie_ratings\<close> ratings, and the rows are ordered by mean
  rating descending, then count of ratings descending. Each returned row is a different
  pair of the table with at least \<open>min_movie_ratings\<close> ratings, its mean rating is the mean
  of the ratings of that pair and its count their number; and no pair with enough ratings
  that is left out comes before a returned row in that order.
\<close>

theorem top_movies_length_sorted:
  assumes "top_movies df min_movie_ratings top_n = Inr out" and "0 \<le> top_n"
  shows "length out =
           min (nat top_n)
               (card {k \<in> (\<lambda>r. (movie_id r, title r)) ` set (rows df).
                        min_movie_ratings
                          \<le> int (length (filter (\<lambda>r. (movie_id r, title r) = k) (rows df)))})
         \<and> sorted_wrt (\<lambda>a b. ms_avg_rating a > ms_avg_rating b
                              \<or> (ms_avg_rating a = ms_avg_rating b
                                  \<and> ms_n_ratings a \<ge> ms_n_ratings b)) out
         \<and> distinct (map (\<lambda>m. (ms_movie_id m, ms_title m)) out)
         \<and> (\<forall>m \<in> set out.
               (ms_movie_id m, ms_title m) \<in> (\<lambda>r. (movie_id r, title r)) ` set (rows df)
               \<and> ms_avg_rating m
                   = mean (map rating (filter (\<lambda>r. (movie_id r, title r)
                                                    = (ms_movie_id m, ms_title m)) (rows df)))
               \<and> ms_n_ratings m
                   = length (filter (\<lambda>r. (movie_id r, title r)
                                            = (ms_movie_id m, ms_title m)) (rows df))
               \<and> min_movie_ratings \<le> int (ms_n_ratings m))
         \<and> (\<forall>k \<in> (\<lambda>r. (movie_id r, title r)) ` set (rows df).
               min_movie_ratings
                 \<le> int (length (filter (\<lambda>r. (movie_id r, title r) = k) (rows df)))
               \<and> k \<notin> (\<lambda>m. (ms_movie_id m, ms_title m)) ` set out
               \<longrightarrow> (\<forall>m \<in> set out.
                      mean (map rating (filter (\<lambda>r. (movie_id r, title r) = k) (rows df)))
                        < ms_avg_rating m
                      \<or> (mean (map rating (filter (\<lambda>r. (movie_id r, title r) = k) (rows df)))
                            = ms_avg_rating m
                          \<and> length (filter (\<lambda>r. (movie_id r, title r) = k) (rows df))
                              \<le> ms_n_ratings m)))"
proof -
  let ?key = "\<lambda>r. (movie_id r, title r)"
  let ?mkey = "\<lambda>m. (ms_movie_id m, ms_title m)"
  let ?R = "\<lambda>a b. ms_avg_rating a > ms_avg_rating b
                \<or> (ms_avg_rating a = ms_avg_rating b \<and> ms_n_ratings a \<ge> ms_n_ratings b)"
  let ?fm = "filter (\<lambda>m. int (ms_n_ratings m) \<ge> min_movie_ratings) (movie_stats (rows df))"
  let ?xs = "sort_values_desc2 ?fm"
  have out: "out = take (nat top_n) ?xs"
    using top_movies_cases [OF assms(1)] assms(2) by (simp add: head_take)
  have len: "length out =
           min (nat top_n)
               (card {k \<in> ?key ` set (rows df).
                        min_movie_ratings \<le> int (length (filter (\<lambda>r. ?key r = k) (rows df)))})"
    unfolding out
    by (simp add: length_sort_values_desc2 movie_stats_filter_length)
  have sorted_all: "sorted_wrt ?R ?xs"
    by (rule sort_values_desc2_sorted)
  then have sorted: "sorted_wrt ?R out"
    unfolding out by (rule sorted_wrt_take)
  have "distinct (map ?mkey (movie_stats (rows df)))"
    by (simp add: movie_stats_keys)
  then have "distinct (map ?mkey ?xs)"
    by (simp add: distinct_map_sort_values_desc2 distinct_map_filter)
  then have dist_xs: "distinct ?xs \<and> inj_on ?mkey (set ?xs)"
    by (simp add: distinct_map)
  have dist: "distinct (map ?mkey out)"
    unfolding out using \<open>distinct (map ?mkey ?xs)\<close>
    by (simp add: take_map [symmetric])
  have mem: "m \<in> set (movie_stats (rows df)) \<and> min_movie_ratings \<le> int (ms_n_ratings m)"
    if "m \<in> set ?xs" for m
    using that by (simp add: set_sort_values_desc2)
  have stats: "\<forall>m \<in> set out.
               ?mkey m \<in> ?key ` set (rows df)
               \<and> ms_avg_rating m
                   = mean (map rating (filter (\<lambda>r. ?key r = ?mkey m) (rows df)))
               \<and> ms_n_ratings m = length (filter (\<lambda>r. ?key r = ?mkey m) (rows df))
               \<and> min_movie_ratings \<le> int (ms_n_ratings m)"
  proof
    fix m assume "m \<in> set out"
    then have "m \<in> set ?xs" unfolding out by (rule in_set_takeD)
    from mem [OF this] movie_stats_member [of m "rows df"]
    show "?mkey m \<in> ?key ` set (rows df)
               \<and> ms_avg_rating m
                   = mean (map rating (filter (\<lambda>r. ?key r = ?mkey m) (rows df)))
               \<and> ms_n_ratings m = length (filter (\<lambda>r. ?key r = ?mkey m) (rows df))
               \<and> min_movie_ratings \<le> int (ms_n_ratings m)"
      by blast
  qed
  have top: "\<forall>k \<in> ?key ` set (rows df).
               min_movie_ratings \<le> int (length (filter (\<lambda>r. ?key r = k) (rows df)))
               \<and> k \<notin> ?mkey ` set out
               \<longrightarrow> (\<forall>m \<in> set out.
                      mean (map rating (filter (\<lambda>r. ?key r = k) (rows df))) < ms_avg_rating m
                      \<or> (mean (map rating (filter (\<lambda>r. ?key r = k) (rows df))) = ms_avg_rating m
                          \<and> length (filter (\<lambda>r. ?key r = k) (rows df)) \<le> ms_n_ratings m))"
  proof (intro ballI impI)
    fix k m
    assume k: "k \<in> ?key ` set (rows df)"
      and q: "min_movie_ratings \<le> int (length (filter (\<lambda>r. ?key r = k) (rows df)))
              \<and> k \<notin> ?mkey ` set out"
      and m: "m \<in> set out"
    from k have "k \<in> set (map ?mkey (movie_stats (rows df)))"
      by (simp add: movie_stats_keys)
    then obtain m' where m': "m' \<in> set (movie_stats (rows df))" "?mkey m' = k"
      by auto
    define mk where "mk = mean (map rating (filter (\<lambda>r. ?key r = k) (rows df)))"
    define ck where "ck = length (filter (\<lambda>r. ?key r = k) (rows df))"
    from movie_stats_member [OF m'(1)]
    have st: "ms_avg_rating m' = mk" "ms_n_ratings m' = ck"
      unfolding m'(2) mk_def ck_def by simp_all
    from q have "min_movie_ratings \<le> int ck"
      by (simp add: ck_def)
    with m'(1) st(2) have in_xs: "m' \<in> set ?xs"
      by (simp add: set_sort_values_desc2)
    from q m'(2) have "m' \<notin> set out"
      by blast
    then have "m' \<notin> set (take (nat top_n) ?xs)"
      unfolding out .
    with in_xs have in_drop: "m' \<in> set (drop (nat top_n) ?xs)"
      by (rule not_in_take_in_drop)
    from m have "m \<in> set (take (nat top_n) ?xs)"
      unfolding out .
    with sorted_all have "?R m m'"
      using in_drop by (rule sorted_wrt_take_drop)
    then have "mk < ms_avg_rating m \<or> (mk = ms_avg_rating m \<and> ck \<le> ms_n_ratings m)"
      unfolding st by auto
    then show "mean (map rating (filter (\<lambda>r. ?key r = k) (rows df))) < ms_avg_rating m
                      \<or> (mean (map rating (filter (\<lambda>r. ?key r = k) (rows df))) = ms_avg_rating m
                          \<and> length (filter (\<lambda>r. ?key r = k) (rows df)) \<le> ms_n_ratings m)"
      by (simp only: mk_def ck_def)
  qed
  show ?thesis
    by (rule conjI [OF len conjI [OF sorted conjI [OF dist conjI [OF stats top]]]])
qed

theorem top_movies_length_sorted_witness:
  "(0::int) \<le> 2
   \<and> top_movies mixed_ratings 1 2 =
       Inr [\<lparr>ms_movie_id = 1, ms_title = ''A'', ms_avg_rating = 4, ms_n_ratings = 3\<rparr>,
            \<lparr>ms_movie_id = 3, ms_title = ''C'', ms_avg_rating = 4, ms_n_ratings = 1\<rparr>]
   \<and> card {k \<in> (\<lambda>r. (movie_id r, title r)) ` set (rows mixed_ratings).
             1 \<le> int (length (filter (\<lambda>r. (\<lambda>r. (movie_id r, title r)) r = k) (rows mixed_ratings)))} = 3
   \<and> length [\<lparr>ms_movie_id = 1, ms_title = ''A'', ms_avg_rating = 4, ms_n_ratings = 3\<rparr>,
            \<lparr>ms_movie_id = 3, ms_title = ''C'', ms_avg_rating = 4, ms_n_ratings = 1\<rparr>] = min (nat 2) 3
   \<and> sorted_wrt (\<lambda>a b. ms_avg_rating a > ms_avg_rating b
                        \<or> (ms_avg_rating a = ms_avg_rating b
                            \<and> ms_n_ratings a \<ge> ms_n_ratings b))
         [\<lparr>ms_movie_id = 1, ms_title = ''A'', ms_avg_rating = 4, ms_n_ratings = 3\<rparr>,
          \<lparr>ms_movie_id = 3, ms_title = ''C'', ms_avg_rating = 4, ms_n_ratings = 1\<rparr>]
   \<and> mean (map rating (filter (\<lambda>r. (\<lambda>r. (movie_id r, title r)) r = (1, ''A'')) (rows mixed_ratings))) = 4
   \<and> length (filter (\<lambda>r. (\<lambda>r. (movie_id r, title r)) r = (3, ''C'')) (rows mixed_ratings)) = 1
   \<and> (2, ''B'') \<in> (\<lambda>r. (movie_id r, title r)) ` set (rows mixed_ratings)
   \<and> (2, ''B'') \<notin> (\<lambda>m. (ms_movie_id m, ms_title m)) ` set [\<lparr>ms_movie_id = 1, ms_title = ''A'', ms_avg_rating = 4, ms_n_ratings = 3\<rparr>,
            \<lparr>ms_movie_id = 3, ms_title = ''C'', ms_avg_rating = 4, ms_n_ratings = 1\<rparr>]
   \<and> (mean (map rating (filter (\<lambda>r. (\<lambda>r. (movie_id r, title r)) r = (2, ''B'')) (rows mixed_ratings))) < 4
        \<or> mean (map rating (filter (\<lambda>r. (\<lambda>r. (movie_id r, title r)) r = (2, ''B'')) (rows mixed_ratings))) = 4
          \<and> length (filter (\<lambda>r. (\<lambda>r. (movie_id r, title r)) r = (2, ''B'')) (rows mixed_ratings)) \<le> 3)
   \<and> mean (map rating (filter (\<lambda>r. (\<lambda>r. (movie_id r, title r)) r = (2, ''B'')) (rows mixed_ratings))) = 7 / 3"
proof -
  have n: "(0::int) \<le> 2"
    by simp
  have h: "top_movies mixed_ratings 1 2 =
       Inr [\<lparr>ms_movie_id = 1, ms_title = ''A'', ms_avg_rating = 4, ms_n_ratings = 3\<rparr>,
            \<lparr>ms_movie_id = 3, ms_title = ''C'', ms_avg_rating = 4, ms_n_ratings = 1\<rparr>]"
    by code_simp
  have c: "card {k \<in> (\<lambda>r. (movie_id r, title r)) ` set (rows mixed_ratings).
             1 \<le> int (length (filter (\<lambda>r. (\<lambda>r. (movie_id r, title r)) r = k) (rows mixed_ratings)))} = 3"
    by code_simp
  have k: "(2, ''B'') \<in> (\<lambda>r. (movie_id r, title r)) ` set (rows mixed_ratings)"
    by code_simp
  have q: "1 \<le> int (length (filter (\<lambda>r. (\<lambda>r. (movie_id r, title r)) r = (2, ''B'')) (rows mixed_ratings)))"
    by code_simp
  have o: "(2, ''B'') \<notin> (\<lambda>m. (ms_movie_id m, ms_title m)) ` set [\<lparr>ms_movie_id = 1, ms_title = ''A'', ms_avg_rating = 4, ms_n_ratings = 3\<rparr>,
            \<lparr>ms_movie_id = 3, ms_title = ''C'', ms_avg_rating = 4, ms_n_ratings = 1\<rparr>]"
    by simp
  note t = top_movies_length_sorted [OF h n]
  from t c have l: "length [\<lparr>ms_movie_id = 1, ms_title = ''A'', ms_avg_rating = 4, ms_n_ratings = 3\<rparr>,
            \<lparr>ms_movie_id = 3, ms_title = ''C'', ms_avg_rating = 4, ms_n_ratings = 1\<rparr>] = min (nat 2) 3"
    by simp
  from t have s: "sorted_wrt (\<lambda>a b. ms_avg_rating a > ms_avg_rating b
                        \<or> (ms_avg_rating a = ms_avg_rating b
                            \<and> ms_n_ratings a \<ge> ms_n_ratings b))
         [\<lparr>ms_movie_id = 1, ms_title = ''A'', ms_avg_rating = 4, ms_n_ratings = 3\<rparr>,
          \<lparr>ms_movie_id = 3, ms_title = ''C'', ms_avg_rating = 4, ms_n_ratings = 1\<rparr>]"
    by blast
  from t have m1: "mean (map rating (filter (\<lambda>r. (\<lambda>r. (movie_id r, title r)) r = (1, ''A'')) (rows mixed_ratings))) = 4"
    and n3: "length (filter (\<lambda>r. (\<lambda>r. (movie_id r, title r)) r = (3, ''C'')) (rows mixed_ratings)) = 1"
    by simp_all
  from t [THEN conjunct2, THEN conjunct2, THEN conjunct2, THEN conjunct2, rule_format, OF k conjI [OF q o], of "\<lparr>ms_movie_id = 1, ms_title = ''A'', ms_avg_rating = 4, ms_n_ratings = 3\<rparr>"]
  have b: "mean (map rating (filter (\<lambda>r. (\<lambda>r. (movie_id r, title r)) r = (2, ''B'')) (rows mixed_ratings))) < 4
        \<or> mean (map rating (filter (\<lambda>r. (\<lambda>r. (movie_id r, title r)) r = (2, ''B'')) (rows mixed_ratings))) = 4
          \<and> length (filter (\<lambda>r. (\<lambda>r. (movie_id r, title r)) r = (2, ''B'')) (rows mixed_ratings)) \<le> 3"
    by simp
  have v: "mean (map rating (filter (\<lambda>r. (\<lambda>r. (movie_id r, title r)) r = (2, ''B'')) (rows mixed_ratings))) = 7 / 3"
    by code_simp
  from n h c l s m1 n3 k o b v show ?thesis
    by (intro conjI)
qed

subsection \<open>Missing columns\<close>

text \<open>
  Claim C9. A pipeline invoked on a table that lacks its grouping column does not return
  a table: it fails with the \<^verbatim>\<open>KeyError\<close> of the missing column. This holds for the
  column \<open>genres\<close> of the two genre pipelines, for \<open>year\<close> of the year trend, and for
  \<open>movie_id\<close> and \<open>title\<close> of the top movies. (\<^verbatim>\<open>main\<close> catches no \<^verbatim>\<open>KeyError\<close>.)
\<close>

theorem missing_grouping_column:
  "(''genres'' \<notin> set (columns df) \<longrightarrow>
      genre_distribution df min_pct = Inl (KeyError ''genres'')
      \<and> genre_rating df min_ratings order = Inl (KeyError ''genres''))
   \<and> (''year'' \<notin> set (columns df) \<longrightarrow>
        year_trend df year_range min_count_year w = Inl (KeyError ''year''))
   \<and> (''movie_id'' \<notin> set (columns df) \<longrightarrow>
        top_movies df min_movie_ratings top_n = Inl (KeyError ''movie_id''))
   \<and> (''movie_id'' \<in> set (columns df) \<and> ''title'' \<notin> set (columns df) \<longrightarrow>
        top_movies df min_movie_ratings top_n = Inl (KeyError ''title''))"
  by (simp add: genre_distribution_def genre_rating_def year_trend_def top_movies_def)

theorem missing_grouping_column_witness:
  "''genres'' \<notin> set (columns (example_table\<lparr>columns := [''movie_id'', ''rating'']\<rparr>))
   \<and> ''year'' \<notin> set (columns (example_table\<lparr>columns := [''movie_id'', ''rating'']\<rparr>))
   \<and> ''title'' \<notin> set (columns (example_table\<lparr>columns := [''movie_id'', ''rating'']\<rparr>))
   \<and> ''movie_id'' \<in> set (columns (example_table\<lparr>columns := [''movie_id'', ''rating'']\<rparr>))
   \<and> genre_distribution (example_table\<lparr>columns := [''movie_id'', ''rating'']\<rparr>) 2
       = Inl (KeyError ''genres'')
   \<and> genre_rating (example_table\<lparr>columns := [''movie_id'', ''rating'']\<rparr>) 50 High_to_Low
       = Inl (KeyError ''genres'')
   \<and> year_trend (example_table\<lparr>columns := [''movie_id'', ''rating'']\<rparr>) (2000, 2000) 50 1
       = Inl (KeyError ''year'')
   \<and> top_movies (example_table\<lparr>columns := [''movie_id'', ''rating'']\<rparr>) 50 5
       = Inl (KeyError ''title'')
   \<and> ''movie_id'' \<notin> set (columns (example_table\<lparr>columns := [''rating'']\<rparr>))
   \<and> top_movies (example_table\<lparr>columns := [''rating'']\<rparr>) 50 5
       = Inl (KeyError ''movie_id'')"
proof -
  have g: "''genres'' \<notin> set (columns (example_table\<lparr>columns := [''movie_id'', ''rating'']\<rparr>))"
    and y: "''year'' \<notin> set (columns (example_table\<lparr>columns := [''movie_id'', ''rating'']\<rparr>))"
    and t: "''title'' \<notin> set (columns (example_table\<lparr>columns := [''movie_id'', ''rating'']\<rparr>))"
    and i: "''movie_id'' \<in> set (columns (example_table\<lparr>columns := [''movie_id'', ''rating'']\<rparr>))"
    and j: "''movie_id'' \<notin> set (columns (example_table\<lparr>columns := [''rating'']\<rparr>))"
    by simp_all
  from g y t i j
    missing_grouping_column [of "example_table\<lparr>columns := [''movie_id'', ''rating'']\<rparr>"
      2 50 High_to_Low "(2000, 2000)" 50 1 50 5]
    missing_grouping_column [of "example_table\<lparr>columns := [''rating'']\<rparr>"
      2 50 High_to_Low "(2000, 2000)" 50 1 50 5]
  show ?thesis
    by blast
qed

end
